theory Spec2Isabelle
  imports Main "HOL-Library.AList"
begin

section \<open>JavaScript values used by the constructs\<close>

text \<open>
  An object literal is kept as an association list in insertion order. Writing a key
  that is already there replaces its value in place (\<open>AList.update\<close>), which is what
  a later property or a spread does to an earlier property of the same name.
\<close>

type_synonym 'v js_object = "(string \<times> 'v) list"

datatype 'v member = Prop string 'v | Spread "'v js_object"

fun add_member :: "'v member \<Rightarrow> 'v js_object \<Rightarrow> 'v js_object" where
  "add_member (Prop k v) obj = AList.update k v obj"
| "add_member (Spread src) obj = fold (\<lambda>(k, v). AList.update k v) src obj"

definition object_literal :: "'v member list \<Rightarrow> 'v js_object" where
  "object_literal ms = fold add_member ms []"

text \<open>\<open>Number.prototype.toString\<close> on a non-negative integer: its decimal digits.\<close>

definition digit_char :: "nat \<Rightarrow> char" where
  "digit_char d = char_of (48 + d)"

fun number_toString :: "nat \<Rightarrow> string" where
  "number_toString n =
     (if n < 10 then [digit_char n] else number_toString (n div 10) @ [digit_char (n mod 10)])"

declare number_toString.simps [simp del]

text \<open>\<open>Array.prototype.join\<close> on an array of strings.\<close>

fun join :: "string \<Rightarrow> string list \<Rightarrow> string" where
  "join sep [] = []"
| "join sep [x] = x"
| "join sep (x # y # ys) = x @ sep @ join sep (y # ys)"

text \<open>
  \<open>Array(n).fill(v)\<close> and \<open>xs.map((x, i) => f x i)\<close>; \<open>join\<close> on an array of
  numbers converts each element with \<open>toString\<close> first.
\<close>

definition Array_fill :: "nat \<Rightarrow> 'a \<Rightarrow> 'a list" where
  "Array_fill n v = replicate n v"

definition map_indexed :: "('a \<Rightarrow> nat \<Rightarrow> 'b) \<Rightarrow> 'a list \<Rightarrow> 'b list" where
  "map_indexed f xs = map (\<lambda>(i, x). f x i) (enumerate 0 xs)"

definition join_numbers :: "string \<Rightarrow> nat list \<Rightarrow> string" where
  "join_numbers sep ns = join sep (map number_toString ns)"

section \<open>The collaborators passed in as props\<close>

datatype ISecret =
    ExternalSecret string
  | NewSecret string nat  \<comment> \<open>construct id, \<open>generateSecretString.passwordLength\<close>\<close>

datatype IStringParameter = StringParameter string

datatype IRepository = Repository string

record Postgres =
  pg_secret :: ISecret
  databaseName :: string
  pgVectorDatabaseName :: string

record Redis =
  endpoint :: string
  port :: nat
  redis_secret :: ISecret
  brokerUrl :: IStringParameter

record IBucket =
  bucketName :: string
  bucket_region :: string  \<comment> \<open>\<open>Stack.of(storageBucket).region\<close>\<close>

record ICluster =
  clusterName :: string

record IAlb =
  url :: string

section \<open>Task definitions, containers and services\<close>

datatype CpuArchitecture = ARM64 | X86_64

datatype Platform = LINUX_AMD64 | LINUX_ARM64

datatype ContainerImage =
    FromRegistry string
  | FromAsset "string list" Platform "string js_object"
      \<comment> \<open>directory below \<open>__dirname\<close>, platform, build arguments\<close>
  | FromEcrRepository IRepository string

text \<open>
  A value of the \<open>secrets\<close> map of a container: \<open>ecs.Secret.fromSecretsManager\<close> with its
  optional JSON field, or \<open>ecs.Secret.fromSsmParameter\<close>.
\<close>

datatype ecs_Secret =
    FromSecretsManager ISecret "string option"
  | FromSsmParameter IStringParameter

datatype LogDriver = AwsLogs string  \<comment> \<open>\<open>streamPrefix\<close>\<close>

record HealthCheck =
  hc_command :: "string list"
  interval :: nat  \<comment> \<open>seconds\<close>
  startPeriod :: nat
  timeout :: nat
  retries :: nat

text \<open>The options object of \<open>addContainer\<close>; a property left out is \<open>None\<close>.\<close>

record ContainerDefinitionOptions =
  image :: ContainerImage
  environment :: "string js_object option"
  logging :: "LogDriver option"
  portMappings :: "nat list option"  \<comment> \<open>the \<open>containerPort\<close> of each mapping\<close>
  secrets :: "ecs_Secret js_object option"
  healthCheck :: "HealthCheck option"
  essential :: "bool option"
  entryPoint :: "string list option"
  command :: "string list option"

record MountPoint =
  containerPath :: string
  sourceVolume :: string
  readOnly :: bool

datatype ContainerDependencyCondition = START | COMPLETE | SUCCESS | HEALTHY

record ContainerDependency =
  dep_container :: string  \<comment> \<open>the name of the container waited for\<close>
  condition :: ContainerDependencyCondition

record ContainerDefinition =
  containerName :: string
  props :: ContainerDefinitionOptions
  mountPoints :: "MountPoint list"
  containerDependencies :: "ContainerDependency list"

record PolicyStatement =
  actions :: "string list"
  resources :: "string list"

datatype BucketGrant = GrantReadWrite IBucket

record Role =
  grants :: "BucketGrant list"
  principalPolicy :: "PolicyStatement list"

record FargateTaskDefinition =
  cpu :: nat
  memoryLimitMiB :: nat
  cpuArchitecture :: CpuArchitecture
  volumes :: "string list"  \<comment> \<open>the \<open>name\<close> of each volume\<close>
  containers :: "ContainerDefinition list"
  taskRole :: Role

record CapacityProviderStrategy =
  capacityProvider :: string
  weight :: nat

record FargateService =
  capacityProviderStrategies :: "CapacityProviderStrategy list"
  enableExecuteCommand :: bool
  minHealthyPercent :: "nat option"
  desiredCount :: "nat option"

text \<open>
  Calls on \<open>connections\<close> objects. \<open>AllowToDefaultPort a b\<close> is
  \<open>a.connections.allowToDefaultPort(b)\<close> and \<open>AllowDefaultPortFrom a b\<close> is
  \<open>a.connections.allowDefaultPortFrom(b)\<close>.
\<close>

datatype Connectable = TheService | ThePostgres | TheRedis

datatype ConnectionCall =
    AllowToDefaultPort Connectable Connectable
  | AllowDefaultPortFrom Connectable Connectable

text \<open>The traffic a call allows, as (source, destination whose default port is opened).\<close>

fun allowed_flow :: "ConnectionCall \<Rightarrow> Connectable \<times> Connectable" where
  "allowed_flow (AllowToDefaultPort a b) = (a, b)"
| "allowed_flow (AllowDefaultPortFrom a b) = (b, a)"

text \<open>A call of \<open>alb.addEcsService(id, service, port, healthCheckPath, paths)\<close>.\<close>

record AlbEcsService =
  alb_id :: string
  alb_port :: nat
  healthCheckPath :: string
  paths :: "string list"

text \<open>
  A \<open>CfnOutput\<close> value is a template string; the region of the stack and the service
  name are deploy-time tokens and stay symbolic.
\<close>

datatype fragment = Text string | StackRegion | ServiceName

text \<open>Everything a construct adds to the resource graph.\<close>

record Resources =
  taskDefinition :: FargateTaskDefinition
  newSecrets :: "ISecret list"
  service :: FargateService
  connectionCalls :: "ConnectionCall list"
  albServices :: "AlbEcsService list"
  outputs :: "(string \<times> fragment list) list"

subsection \<open>Methods of the task definition and its containers\<close>

definition newFargateTaskDefinition ::
  "nat \<Rightarrow> nat \<Rightarrow> CpuArchitecture \<Rightarrow> string list \<Rightarrow> FargateTaskDefinition" where
  "newFargateTaskDefinition c m arch vols =
     \<lparr>cpu = c, memoryLimitMiB = m, cpuArchitecture = arch, volumes = vols, containers = [],
      taskRole = \<lparr>grants = [], principalPolicy = []\<rparr>\<rparr>"

definition addContainer ::
  "string \<Rightarrow> ContainerDefinitionOptions \<Rightarrow> FargateTaskDefinition \<Rightarrow> FargateTaskDefinition" where
  "addContainer name opts td =
     td\<lparr>containers := containers td @
       [\<lparr>containerName = name, props = opts, mountPoints = [], containerDependencies = []\<rparr>]\<rparr>"

definition on_container ::
  "string \<Rightarrow> (ContainerDefinition \<Rightarrow> ContainerDefinition) \<Rightarrow> FargateTaskDefinition
     \<Rightarrow> FargateTaskDefinition" where
  "on_container name f td =
     td\<lparr>containers := map (\<lambda>c. if containerName c = name then f c else c) (containers td)\<rparr>"

definition addMountPoints ::
  "string \<Rightarrow> MountPoint \<Rightarrow> FargateTaskDefinition \<Rightarrow> FargateTaskDefinition" where
  "addMountPoints name mp = on_container name (\<lambda>c. c\<lparr>mountPoints := mountPoints c @ [mp]\<rparr>)"

definition addContainerDependencies ::
  "string \<Rightarrow> ContainerDependency \<Rightarrow> FargateTaskDefinition \<Rightarrow> FargateTaskDefinition" where
  "addContainerDependencies name d =
     on_container name (\<lambda>c. c\<lparr>containerDependencies := containerDependencies c @ [d]\<rparr>)"

definition grantReadWrite :: "IBucket \<Rightarrow> FargateTaskDefinition \<Rightarrow> FargateTaskDefinition" where
  "grantReadWrite b td =
     td\<lparr>taskRole := (taskRole td)\<lparr>grants := grants (taskRole td) @ [GrantReadWrite b]\<rparr>\<rparr>"

definition addToPrincipalPolicy ::
  "PolicyStatement \<Rightarrow> FargateTaskDefinition \<Rightarrow> FargateTaskDefinition" where
  "addToPrincipalPolicy st td =
     td\<lparr>taskRole := (taskRole td)\<lparr>principalPolicy := principalPolicy (taskRole td) @ [st]\<rparr>\<rparr>"

definition findContainer :: "string \<Rightarrow> FargateTaskDefinition \<Rightarrow> ContainerDefinition option" where
  "findContainer name td = find (\<lambda>c. containerName c = name) (containers td)"

definition the_environment :: "ContainerDefinition \<Rightarrow> string js_object" where
  "the_environment c = (case environment (props c) of None \<Rightarrow> [] | Some e \<Rightarrow> e)"

definition the_secrets :: "ContainerDefinition \<Rightarrow> ecs_Secret js_object" where
  "the_secrets c = (case secrets (props c) of None \<Rightarrow> [] | Some s \<Rightarrow> s)"

definition no_options :: "ContainerImage \<Rightarrow> ContainerDefinitionOptions" where
  "no_options img =
     \<lparr>image = img, environment = None, logging = None, portMappings = None, secrets = None,
      healthCheck = None, essential = None, entryPoint = None, command = None\<rparr>"

section \<open>The primary service\<close>

text \<open>
  The props shared by both constructs, then those of \<open>ApiService\<close>. \<open>debug\<close> is optional.
  An interface is structural: the object a caller passes may carry further properties,
  and the constructor reads only the declared ones. The construct is therefore defined on
  every extension \<open>'z ApiServiceProps_scheme\<close> of the record.
\<close>

record ServiceProps =
  cluster :: ICluster
  alb :: IAlb
  postgres :: Postgres
  redis :: Redis
  storageBucket :: IBucket
  imageTag :: string

record ApiServiceProps = ServiceProps +
  sandboxImageTag :: string
  allowAnySyscalls :: bool
  debug :: "bool option"

definition api_port :: nat where
  "api_port = 5001"

definition volumeName :: string where
  "volumeName = ''sandbox''"

definition debug_or_default :: "'z ApiServiceProps_scheme \<Rightarrow> bool" where
  "debug_or_default p = (case debug p of None \<Rightarrow> False | Some b \<Rightarrow> b)"

definition encryptionSecret :: ISecret where
  "encryptionSecret = NewSecret ''EncryptionSecret'' 42"

definition Main_options :: "'z ApiServiceProps_scheme \<Rightarrow> ContainerDefinitionOptions" where
  "Main_options p =
     \<lparr>image = FromRegistry (''langgenius/dify-api:'' @ imageTag p),
      environment = Some (object_literal
        [Prop ''MODE'' ''api'',
         Prop ''LOG_LEVEL'' (if debug_or_default p then ''DEBUG'' else ''ERROR''),
         Prop ''DEBUG'' (if debug_or_default p then ''true'' else ''false''),
         Prop ''CONSOLE_WEB_URL'' (url (alb p)),
         Prop ''CONSOLE_API_URL'' (url (alb p)),
         Prop ''SERVICE_API_URL'' (url (alb p)),
         Prop ''APP_WEB_URL'' (url (alb p)),
         Prop ''SQLALCHEMY_POOL_PRE_PING'' ''True'',
         Prop ''REDIS_HOST'' (endpoint (redis p)),
         Prop ''REDIS_PORT'' (number_toString (port (redis p))),
         Prop ''REDIS_USE_SSL'' ''true'',
         Prop ''REDIS_DB'' ''0'',
         Prop ''WEB_API_CORS_ALLOW_ORIGINS'' ''*'',
         Prop ''CONSOLE_CORS_ALLOW_ORIGINS'' ''*'',
         Prop ''STORAGE_TYPE'' ''s3'',
         Prop ''S3_BUCKET_NAME'' (bucketName (storageBucket p)),
         Prop ''S3_REGION'' (bucket_region (storageBucket p)),
         Prop ''DB_DATABASE'' (databaseName (postgres p)),
         Prop ''VECTOR_STORE'' ''pgvector'',
         Prop ''PGVECTOR_DATABASE'' (pgVectorDatabaseName (postgres p)),
         Prop ''CODE_EXECUTION_ENDPOINT'' ''http://localhost:8194'',
         Prop ''PLUGIN_DAEMON_URL'' ''http://localhost:5002'']),
      logging = Some (AwsLogs ''log''),
      portMappings = Some [api_port],
      secrets = Some (object_literal
        [Prop ''DB_USERNAME'' (FromSecretsManager (pg_secret (postgres p)) (Some ''username'')),
         Prop ''DB_HOST'' (FromSecretsManager (pg_secret (postgres p)) (Some ''host'')),
         Prop ''DB_PORT'' (FromSecretsManager (pg_secret (postgres p)) (Some ''port'')),
         Prop ''DB_PASSWORD'' (FromSecretsManager (pg_secret (postgres p)) (Some ''password'')),
         Prop ''PGVECTOR_USER'' (FromSecretsManager (pg_secret (postgres p)) (Some ''username'')),
         Prop ''PGVECTOR_HOST'' (FromSecretsManager (pg_secret (postgres p)) (Some ''host'')),
         Prop ''PGVECTOR_PORT'' (FromSecretsManager (pg_secret (postgres p)) (Some ''port'')),
         Prop ''PGVECTOR_PASSWORD'' (FromSecretsManager (pg_secret (postgres p)) (Some ''password'')),
         Prop ''REDIS_PASSWORD'' (FromSecretsManager (redis_secret (redis p)) None),
         Prop ''CELERY_BROKER_URL'' (FromSsmParameter (brokerUrl (redis p))),
         Prop ''SECRET_KEY'' (FromSecretsManager encryptionSecret None),
         Prop ''CODE_EXECUTION_API_KEY'' (FromSecretsManager encryptionSecret None),
         Prop ''INNER_API_KEY_FOR_PLUGIN'' (FromSecretsManager encryptionSecret None),
         Prop ''PLUGIN_API_KEY'' (FromSecretsManager encryptionSecret None)]),
      healthCheck = Some
        \<lparr>hc_command =
           [''CMD-SHELL'',
            ''curl -f http://localhost:'' @ number_toString api_port @ ''/health || exit 1''],
         interval = 15, startPeriod = 30, timeout = 5, retries = 5\<rparr>,
      essential = None, entryPoint = None, command = None\<rparr>"

definition Worker_options :: "'z ApiServiceProps_scheme \<Rightarrow> ContainerDefinitionOptions" where
  "Worker_options p =
     \<lparr>image = FromRegistry (''langgenius/dify-api:'' @ imageTag p),
      environment = Some (object_literal
        [Prop ''MODE'' ''worker'',
         Prop ''LOG_LEVEL'' (if debug_or_default p then ''DEBUG'' else ''ERROR''),
         Prop ''DEBUG'' (if debug_or_default p then ''true'' else ''false''),
         Prop ''MIGRATION_ENABLED'' ''true'',
         Prop ''SQLALCHEMY_POOL_PRE_PING'' ''True'',
         Prop ''REDIS_HOST'' (endpoint (redis p)),
         Prop ''REDIS_PORT'' (number_toString (port (redis p))),
         Prop ''REDIS_USE_SSL'' ''true'',
         Prop ''REDIS_DB'' ''0'',
         Prop ''STORAGE_TYPE'' ''s3'',
         Prop ''S3_BUCKET_NAME'' (bucketName (storageBucket p)),
         Prop ''S3_REGION'' (bucket_region (storageBucket p)),
         Prop ''DB_DATABASE'' (databaseName (postgres p)),
         Prop ''VECTOR_STORE'' ''pgvector'',
         Prop ''PGVECTOR_DATABASE'' (pgVectorDatabaseName (postgres p)),
         Prop ''PLUGIN_API_URL'' ''http://localhost:5002'']),
      logging = Some (AwsLogs ''log''),
      portMappings = None,
      secrets = Some (object_literal
        [Prop ''DB_USERNAME'' (FromSecretsManager (pg_secret (postgres p)) (Some ''username'')),
         Prop ''DB_HOST'' (FromSecretsManager (pg_secret (postgres p)) (Some ''host'')),
         Prop ''DB_PORT'' (FromSecretsManager (pg_secret (postgres p)) (Some ''port'')),
         Prop ''DB_PASSWORD'' (FromSecretsManager (pg_secret (postgres p)) (Some ''password'')),
         Prop ''PGVECTOR_USER'' (FromSecretsManager (pg_secret (postgres p)) (Some ''username'')),
         Prop ''PGVECTOR_HOST'' (FromSecretsManager (pg_secret (postgres p)) (Some ''host'')),
         Prop ''PGVECTOR_PORT'' (FromSecretsManager (pg_secret (postgres p)) (Some ''port'')),
         Prop ''PGVECTOR_PASSWORD'' (FromSecretsManager (pg_secret (postgres p)) (Some ''password'')),
         Prop ''REDIS_PASSWORD'' (FromSecretsManager (redis_secret (redis p)) None),
         Prop ''CELERY_BROKER_URL'' (FromSsmParameter (brokerUrl (redis p))),
         Prop ''SECRET_KEY'' (FromSecretsManager encryptionSecret None),
         Prop ''PLUGIN_API_KEY'' (FromSecretsManager encryptionSecret None)]),
      healthCheck = None, essential = None, entryPoint = None, command = None\<rparr>"

definition SandboxFileMount_options :: ContainerDefinitionOptions where
  "SandboxFileMount_options =
     (no_options (FromAsset [''docker'', ''sandbox''] LINUX_AMD64 []))\<lparr>essential := Some False\<rparr>"

definition ALLOWED_SYSCALLS_value :: string where
  "ALLOWED_SYSCALLS_value = join_numbers '','' (map_indexed (\<lambda>_ i. i) (Array_fill 457 (0::nat)))"

definition PYTHON_LIB_PATH_value :: string where
  "PYTHON_LIB_PATH_value = join '',''
     [''/usr/local/lib/python3.10'',
      ''/usr/lib/python3.10'',
      ''/usr/lib/python3'',
      ''/usr/lib/x86_64-linux-gnu'',
      ''/etc/ssl/certs/ca-certificates.crt'',
      ''/etc/nsswitch.conf'',
      ''/etc/hosts'',
      ''/etc/resolv.conf'',
      ''/run/systemd/resolve/stub-resolv.conf'',
      ''/run/resolvconf/resolv.conf'']"

definition Sandbox_options :: "'z ApiServiceProps_scheme \<Rightarrow> ContainerDefinitionOptions" where
  "Sandbox_options p =
     \<lparr>image = FromRegistry (''langgenius/dify-sandbox:'' @ sandboxImageTag p),
      environment = Some (object_literal
        [Prop ''GIN_MODE'' ''release'',
         Prop ''WORKER_TIMEOUT'' ''15'',
         Prop ''ENABLE_NETWORK'' ''true'',
         Spread (if allowAnySyscalls p
                 then object_literal [Prop ''ALLOWED_SYSCALLS'' ALLOWED_SYSCALLS_value]
                 else object_literal []),
         Prop ''PYTHON_LIB_PATH'' PYTHON_LIB_PATH_value]),
      logging = Some (AwsLogs ''log''),
      portMappings = Some [8194],
      secrets = Some (object_literal
        [Prop ''API_KEY'' (FromSecretsManager encryptionSecret None)]),
      healthCheck = None, essential = None, entryPoint = None, command = None\<rparr>"

definition PluginDaemon_options :: "'z ApiServiceProps_scheme \<Rightarrow> ContainerDefinitionOptions" where
  "PluginDaemon_options p =
     \<lparr>image = FromRegistry ''langgenius/dify-plugin-daemon:0.0.1-local'',
      environment = Some (object_literal
        [Prop ''REDIS_HOST'' (endpoint (redis p)),
         Prop ''REDIS_PORT'' (number_toString (port (redis p))),
         Prop ''REDIS_USE_SSL'' ''true'',
         Prop ''REDIS_DB'' ''0'',
         Prop ''VECTOR_STORE'' ''pgvector'',
         Prop ''PGVECTOR_DATABASE'' (pgVectorDatabaseName (postgres p)),
         Prop ''CODE_EXECUTION_ENDPOINT'' ''http://localhost:8194'',
         Prop ''DB_DATABASE'' ''dify_plugin'',
         Prop ''SERVER_PORT'' ''5002'',
         Prop ''PLUGIN_STORAGE_TYPE'' ''local'',
         Prop ''PLUGIN_STORAGE_OSS_BUCKET'' (bucketName (storageBucket p)),
         Prop ''MAX_PLUGIN_PACKAGE_SIZE'' ''52428800'',
         Prop ''DIFY_INNER_API_URL'' ''http://localhost:5001'',
         Prop ''PLUGIN_WORKING_PATH'' ''/app/storage/cwd'',
         Prop ''FORCE_VERIFYING_SIGNATURE'' ''true'']),
      logging = Some (AwsLogs ''log''),
      portMappings = Some [5002],
      secrets = Some (object_literal
        [Prop ''DB_USERNAME'' (FromSecretsManager (pg_secret (postgres p)) (Some ''username'')),
         Prop ''DB_HOST'' (FromSecretsManager (pg_secret (postgres p)) (Some ''host'')),
         Prop ''DB_PORT'' (FromSecretsManager (pg_secret (postgres p)) (Some ''port'')),
         Prop ''DB_PASSWORD'' (FromSecretsManager (pg_secret (postgres p)) (Some ''password'')),
         Prop ''PGVECTOR_USER'' (FromSecretsManager (pg_secret (postgres p)) (Some ''username'')),
         Prop ''PGVECTOR_HOST'' (FromSecretsManager (pg_secret (postgres p)) (Some ''host'')),
         Prop ''PGVECTOR_PORT'' (FromSecretsManager (pg_secret (postgres p)) (Some ''port'')),
         Prop ''PGVECTOR_PASSWORD'' (FromSecretsManager (pg_secret (postgres p)) (Some ''password'')),
         Prop ''REDIS_PASSWORD'' (FromSecretsManager (redis_secret (redis p)) None),
         Prop ''CELERY_BROKER_URL'' (FromSsmParameter (brokerUrl (redis p))),
         Prop ''SECRET_KEY'' (FromSecretsManager encryptionSecret None),
         Prop ''CODE_EXECUTION_API_KEY'' (FromSecretsManager encryptionSecret None),
         Prop ''DIFY_INNER_API_KEY'' (FromSecretsManager encryptionSecret None),
         Prop ''SERVER_KEY'' (FromSecretsManager encryptionSecret None)]),
      healthCheck = None, essential = None, entryPoint = None, command = None\<rparr>"

definition ExternalKnowledgeBaseAPI_options :: "'z ApiServiceProps_scheme \<Rightarrow> ContainerDefinitionOptions" where
  "ExternalKnowledgeBaseAPI_options p =
     \<lparr>image = FromAsset [''docker'', ''external-knowledge-api''] LINUX_AMD64
        (object_literal [Prop ''DIFY_VERSION'' (sandboxImageTag p)]),
      environment = Some (object_literal
        [Prop ''BEARER_TOKEN'' ''dummy-key'',
         Prop ''BEDROCK_REGION'' ''us-west-2'']),
      logging = Some (AwsLogs ''log''),
      portMappings = Some [8000],
      secrets = None,
      healthCheck = None, essential = None, entryPoint = None, command = None\<rparr>"

definition api_policy :: PolicyStatement where
  "api_policy =
     \<lparr>actions = [''bedrock:InvokeModel'', ''bedrock:InvokeModelWithResponseStream'',
                 ''bedrock:Rerank'', ''bedrock:Retrieve''],
      resources = [''*'']\<rparr>"

definition api_paths :: "string list" where
  "api_paths = [''/console/api'', ''/api'', ''/v1'', ''/files'']"

text \<open>
  The statements of the constructor that act on the task definition, in source order.
  A container is addressed by its name, which is unique in the task definition.
\<close>

definition api_taskDefinition :: "'z ApiServiceProps_scheme \<Rightarrow> FargateTaskDefinition" where
  "api_taskDefinition p =
     fold (\<lambda>statement td. statement td)
       [addContainer ''Main'' (Main_options p),
        addContainer ''Worker'' (Worker_options p),
        addContainer ''SandboxFileMount'' SandboxFileMount_options,
        addContainer ''Sandbox'' (Sandbox_options p),
        addMountPoints ''SandboxFileMount''
          \<lparr>containerPath = ''/dependencies'', sourceVolume = volumeName, readOnly = False\<rparr>,
        addMountPoints ''Sandbox''
          \<lparr>containerPath = ''/dependencies'', sourceVolume = volumeName, readOnly = True\<rparr>,
        addContainerDependencies ''Sandbox''
          \<lparr>dep_container = ''SandboxFileMount'', condition = COMPLETE\<rparr>,
        addContainer ''PluginDaemon'' (PluginDaemon_options p),
        addContainer ''ExternalKnowledgeBaseAPI'' (ExternalKnowledgeBaseAPI_options p),
        grantReadWrite (storageBucket p),
        addToPrincipalPolicy api_policy]
       (newFargateTaskDefinition 1024 2048 X86_64 [volumeName])"

definition ApiService :: "'z ApiServiceProps_scheme \<Rightarrow> Resources" where
  "ApiService p =
     \<lparr>taskDefinition = api_taskDefinition p,
      newSecrets = [encryptionSecret],
      service =
        \<lparr>capacityProviderStrategies =
           [\<lparr>capacityProvider = ''FARGATE'', weight = 0\<rparr>,
            \<lparr>capacityProvider = ''FARGATE_SPOT'', weight = 1\<rparr>],
         enableExecuteCommand = True,
         minHealthyPercent = None,
         desiredCount = None\<rparr>,
      connectionCalls =
        [AllowToDefaultPort TheService ThePostgres, AllowToDefaultPort TheService TheRedis],
      albServices =
        [\<lparr>alb_id = ''Api'', alb_port = api_port, healthCheckPath = ''/health'',
          paths = api_paths @ map (\<lambda>p. p @ ''/*'') api_paths\<rparr>],
      outputs = []\<rparr>"

section \<open>The console service\<close>

text \<open>
  \<open>getAdditionalEnvironmentVariables\<close> and \<open>getAdditionalSecretVariables\<close> come from
  \<open>./environment-variables\<close>; the construct takes them as parameters \<open>getEnv\<close> and
  \<open>getSec\<close>, applied to the target name and to the prop \<open>additionalEnvironmentVariables\<close>,
  whose type \<open>'v\<close> is declared in \<open>../../environment-props\<close>.
\<close>

record 'v ConsoleServiceProps = ServiceProps +
  customRepository :: "IRepository option"
  additionalEnvironmentVariables :: 'v

definition console_Main_options ::
  "(string \<Rightarrow> 'v \<Rightarrow> string js_object) \<Rightarrow> (string \<Rightarrow> 'v \<Rightarrow> ecs_Secret js_object)
     \<Rightarrow> 'v ConsoleServiceProps \<Rightarrow> ContainerDefinitionOptions" where
  "console_Main_options getEnv getSec p =
     \<lparr>image =
        (case customRepository p of
           Some repo \<Rightarrow> FromEcrRepository repo (''dify-api_'' @ imageTag p)
         | None \<Rightarrow> FromRegistry (''langgenius/dify-api:'' @ imageTag p)),
      environment = Some (object_literal
        [Prop ''MODE'' ''api'',
         Prop ''CONSOLE_WEB_URL'' (url (alb p)),
         Prop ''CONSOLE_API_URL'' (url (alb p)),
         Prop ''SERVICE_API_URL'' (url (alb p)),
         Prop ''APP_WEB_URL'' (url (alb p)),
         Prop ''SQLALCHEMY_POOL_PRE_PING'' ''True'',
         Prop ''REDIS_HOST'' (endpoint (redis p)),
         Prop ''REDIS_PORT'' (number_toString (port (redis p))),
         Prop ''REDIS_USE_SSL'' ''true'',
         Prop ''REDIS_DB'' ''0'',
         Prop ''WEB_API_CORS_ALLOW_ORIGINS'' ''*'',
         Prop ''CONSOLE_CORS_ALLOW_ORIGINS'' ''*'',
         Prop ''STORAGE_TYPE'' ''s3'',
         Prop ''S3_BUCKET_NAME'' (bucketName (storageBucket p)),
         Prop ''S3_REGION'' (bucket_region (storageBucket p)),
         Prop ''S3_USE_AWS_MANAGED_IAM'' ''true'',
         Prop ''DB_DATABASE'' (databaseName (postgres p)),
         Prop ''VECTOR_STORE'' ''pgvector'',
         Prop ''PGVECTOR_DATABASE'' (pgVectorDatabaseName (postgres p)),
         Prop ''CODE_EXECUTION_ENDPOINT'' ''http://localhost:8194'',
         Spread (getEnv ''api'' (additionalEnvironmentVariables p))]),
      logging = Some (AwsLogs ''log''),
      portMappings = None,
      secrets = Some (object_literal
        [Prop ''DB_USERNAME'' (FromSecretsManager (pg_secret (postgres p)) (Some ''username'')),
         Prop ''DB_HOST'' (FromSecretsManager (pg_secret (postgres p)) (Some ''host'')),
         Prop ''DB_PORT'' (FromSecretsManager (pg_secret (postgres p)) (Some ''port'')),
         Prop ''DB_PASSWORD'' (FromSecretsManager (pg_secret (postgres p)) (Some ''password'')),
         Prop ''PGVECTOR_USER'' (FromSecretsManager (pg_secret (postgres p)) (Some ''username'')),
         Prop ''PGVECTOR_HOST'' (FromSecretsManager (pg_secret (postgres p)) (Some ''host'')),
         Prop ''PGVECTOR_PORT'' (FromSecretsManager (pg_secret (postgres p)) (Some ''port'')),
         Prop ''PGVECTOR_PASSWORD'' (FromSecretsManager (pg_secret (postgres p)) (Some ''password'')),
         Prop ''REDIS_PASSWORD'' (FromSecretsManager (redis_secret (redis p)) None),
         Prop ''CELERY_BROKER_URL'' (FromSsmParameter (brokerUrl (redis p))),
         Spread (getSec ''api'' (additionalEnvironmentVariables p))]),
      healthCheck = None,
      essential = None,
      entryPoint = Some [''tail''],
      command = Some [''-f'', ''/dev/null'']\<rparr>"

definition console_policy :: PolicyStatement where
  "console_policy =
     \<lparr>actions = [''bedrock:InvokeModel'', ''bedrock:InvokeModelWithResponseStream'',
                 ''bedrock:Rerank'', ''bedrock:Retrieve'', ''bedrock:RetrieveAndGenerate''],
      resources = [''*'']\<rparr>"

definition console_taskDefinition ::
  "(string \<Rightarrow> 'v \<Rightarrow> string js_object) \<Rightarrow> (string \<Rightarrow> 'v \<Rightarrow> ecs_Secret js_object)
     \<Rightarrow> 'v ConsoleServiceProps \<Rightarrow> FargateTaskDefinition" where
  "console_taskDefinition getEnv getSec p =
     fold (\<lambda>statement td. statement td)
       [addContainer ''Main'' (console_Main_options getEnv getSec p),
        grantReadWrite (storageBucket p),
        addToPrincipalPolicy console_policy]
       (newFargateTaskDefinition 1024 2048 X86_64 [])"

definition update_service_command :: "'v ConsoleServiceProps \<Rightarrow> string \<Rightarrow> fragment list" where
  "update_service_command p n =
     [Text ''aws ecs update-service --region '', StackRegion,
      Text ('' --cluster '' @ clusterName (cluster p) @ '' --service ''), ServiceName,
      Text ('' --desired-count '' @ n)]"

definition ConsoleService ::
  "(string \<Rightarrow> 'v \<Rightarrow> string js_object) \<Rightarrow> (string \<Rightarrow> 'v \<Rightarrow> ecs_Secret js_object)
     \<Rightarrow> 'v ConsoleServiceProps \<Rightarrow> Resources" where
  "ConsoleService getEnv getSec p =
     \<lparr>taskDefinition = console_taskDefinition getEnv getSec p,
      newSecrets = [],
      service =
        \<lparr>capacityProviderStrategies =
           [\<lparr>capacityProvider = ''FARGATE'', weight = 1\<rparr>,
            \<lparr>capacityProvider = ''FARGATE_SPOT'', weight = 0\<rparr>],
         enableExecuteCommand = True,
         minHealthyPercent = Some 0,
         desiredCount = Some 0\<rparr>,
      connectionCalls =
        [AllowDefaultPortFrom ThePostgres TheService, AllowDefaultPortFrom TheRedis TheService],
      albServices = [],
      outputs =
        [(''ConsoleStartServiceCommand'', update_service_command p ''1''),
         (''ConsoleStopServiceCommand'', update_service_command p ''0''),
         (''ConsoleListTasksCommand'',
          [Text ''aws ecs list-tasks --region '', StackRegion,
           Text ('' --cluster '' @ clusterName (cluster p) @ '' --service-name ''), ServiceName,
           Text '' --desired-status RUNNING'']),
         (''ConsoleConnectToTaskCommand'',
          [Text ''aws ecs execute-command --region '', StackRegion,
           Text ('' --cluster '' @ clusterName (cluster p) @
                 '' --container Main --interactive --command '' @
                 [CHR 0x22] @ ''bash'' @ [CHR 0x22] @ '' --task TASK_ID'')])]\<rparr>"

subsection \<open>The helpers of the console service\<close>

text \<open>
  The prop \<open>additionalEnvironmentVariables\<close> as the spec describes it: the variables the
  caller supplies, as an environment map and a secrets map.
\<close>

type_synonym AdditionalVariables = "string js_object \<times> ecs_Secret js_object"

text \<open>
  Modelled from the spec: \<open>getAdditionalEnvironmentVariables\<close> of
  \<open>./environment-variables\<close>, which is not among the sources. The spec calls the prop "an
  open map of extra environment/secret overrides" that is "merged into the container
  definition"; the helper returns the environment part of that map, for any target.
\<close>

definition getAdditionalEnvironmentVariables :: "string \<Rightarrow> AdditionalVariables \<Rightarrow> string js_object" where
  "getAdditionalEnvironmentVariables target vars = fst vars"

text \<open>
  Modelled from the spec: \<open>getAdditionalSecretVariables\<close> of \<open>./environment-variables\<close>,
  which is not among the sources. It returns the secret part of the same map, for any
  target.
\<close>

definition getAdditionalSecretVariables :: "string \<Rightarrow> AdditionalVariables \<Rightarrow> ecs_Secret js_object" where
  "getAdditionalSecretVariables target vars = snd vars"

section \<open>Reading the resource graph\<close>

text \<open>One variable of one container of a task definition.\<close>

definition env_of :: "string \<Rightarrow> string \<Rightarrow> FargateTaskDefinition \<Rightarrow> string option" where
  "env_of name k td =
     (case findContainer name td of None \<Rightarrow> None | Some c \<Rightarrow> map_of (the_environment c) k)"

definition secret_of :: "string \<Rightarrow> string \<Rightarrow> FargateTaskDefinition \<Rightarrow> ecs_Secret option" where
  "secret_of name k td =
     (case findContainer name td of None \<Rightarrow> None | Some c \<Rightarrow> map_of (the_secrets c) k)"

text \<open>The actions of all statements attached to the task role.\<close>

definition role_actions :: "FargateTaskDefinition \<Rightarrow> string list" where
  "role_actions td = concat (map actions (principalPolicy (taskRole td)))"

text \<open>
  The references into the stores of the two collaborators: the four fields of the
  database secret, the cache secret and the broker URL parameter.
\<close>

definition store_references :: "'z ServiceProps_scheme \<Rightarrow> ecs_Secret set" where
  "store_references p =
     {FromSecretsManager (pg_secret (postgres p)) (Some ''username''),
      FromSecretsManager (pg_secret (postgres p)) (Some ''host''),
      FromSecretsManager (pg_secret (postgres p)) (Some ''port''),
      FromSecretsManager (pg_secret (postgres p)) (Some ''password''),
      FromSecretsManager (redis_secret (redis p)) None,
      FromSsmParameter (brokerUrl (redis p))}"

section \<open>Example inputs\<close>

definition demo_props :: ServiceProps where
  "demo_props =
     \<lparr>cluster = \<lparr>clusterName = ''dify''\<rparr>,
      alb = \<lparr>url = ''https://dify.example.com''\<rparr>,
      postgres =
        \<lparr>pg_secret = ExternalSecret ''postgres'', databaseName = ''main'',
         pgVectorDatabaseName = ''pgvector''\<rparr>,
      redis =
        \<lparr>endpoint = ''redis.internal'', port = 6379, redis_secret = ExternalSecret ''redis'',
         brokerUrl = StringParameter ''broker-url''\<rparr>,
      storageBucket = \<lparr>bucketName = ''dify-storage'', bucket_region = ''us-east-1''\<rparr>,
      imageTag = ''1.0.0''\<rparr>"

definition demo_api_props :: ApiServiceProps where
  "demo_api_props =
     ServiceProps.extend demo_props
       (ApiServiceProps.fields ''0.2.10'' False None)"

text \<open>
  Console props whose additional variables are a pair of objects, with the two helpers
  that read one component each.
\<close>

definition demo_console_props ::
  "(string js_object \<times> ecs_Secret js_object) ConsoleServiceProps" where
  "demo_console_props =
     ServiceProps.extend demo_props
       (ConsoleServiceProps.fields None
          ([(''MODE'', ''custom''), (''LOG_LEVEL'', ''INFO'')],
           [(''DB_PASSWORD'', FromSecretsManager (ExternalSecret ''override'') None)]))"

definition demo_getEnv :: "string \<Rightarrow> string js_object \<times> ecs_Secret js_object \<Rightarrow> string js_object" where
  "demo_getEnv target v = fst v"

definition demo_getSec ::
  "string \<Rightarrow> string js_object \<times> ecs_Secret js_object \<Rightarrow> ecs_Secret js_object" where
  "demo_getSec target v = snd v"

section \<open>Facts about the JavaScript values\<close>

lemma map_indexed_Array_fill: "map_indexed (\<lambda>_ i. i) (Array_fill n v) = [0..<n]"
  by (simp add: map_indexed_def Array_fill_def enumerate_eq_zip case_prod_unfold
      flip: map_map)

lemma ALLOWED_SYSCALLS_value_eq:
  "ALLOWED_SYSCALLS_value = join '','' (map number_toString [0..<457])"
  by (simp only: ALLOWED_SYSCALLS_value_def join_numbers_def map_indexed_Array_fill)

lemma map_of_rev_distinct: "distinct (map fst xs) \<Longrightarrow> map_of (rev xs) = map_of xs"
proof (induction xs)
  case Nil
  then show ?case by simp
next
  case (Cons x xs)
  obtain a b where x: "x = (a, b)" by (cases x)
  from Cons.prems x have fresh: "a \<notin> dom (map_of xs)" and d: "distinct (map fst xs)"
    by (auto simp: dom_map_of_conv_image_fst)
  have "map_of (rev (x # xs)) = map_of [(a, b)] ++ map_of (rev xs)"
    by (simp add: x)
  also have "\<dots> = map_of [(a, b)] ++ map_of xs"
    using Cons.IH d by simp
  also have "\<dots> = map_of xs ++ map_of [(a, b)]"
    using fresh by (intro map_add_comm) auto
  also have "\<dots> = map_of (x # xs)"
    by (simp add: x)
  finally show ?case .
qed

lemma spread_lookup:
  "map_of (fold (\<lambda>(k, v). AList.update k v) src obj) = map_of obj ++ map_of (rev src)"
proof (induction src arbitrary: obj)
  case Nil
  then show ?case by simp
next
  case (Cons x src)
  obtain a b where x: "x = (a, b)" by (cases x)
  show ?case
    by (rule ext) (simp add: x Cons.IH update_conv' map_add_def split: option.splits)
qed

lemma spread_entries:
  "set (fold (\<lambda>(k, v). AList.update k v) src obj) \<subseteq> set obj \<union> set src"
proof (induction src arbitrary: obj)
  case Nil
  then show ?case by simp
next
  case (Cons x src)
  obtain a b where x: "x = (a, b)" by (cases x)
  have "set (AList.update a b obj) \<subseteq> set obj \<union> {(a, b)}"
    by (induction obj) auto
  with Cons.IH [of "AList.update a b obj"] show ?case
    by (auto simp: x)
qed


section \<open>The containers of the two task definitions\<close>

lemma api_containers:
  "containers (api_taskDefinition p) =
     [\<lparr>containerName = ''Main'', props = Main_options p, mountPoints = [],
        containerDependencies = []\<rparr>,
      \<lparr>containerName = ''Worker'', props = Worker_options p, mountPoints = [],
        containerDependencies = []\<rparr>,
      \<lparr>containerName = ''SandboxFileMount'', props = SandboxFileMount_options,
        mountPoints =
          [\<lparr>containerPath = ''/dependencies'', sourceVolume = ''sandbox'', readOnly = False\<rparr>],
        containerDependencies = []\<rparr>,
      \<lparr>containerName = ''Sandbox'', props = Sandbox_options p,
        mountPoints =
          [\<lparr>containerPath = ''/dependencies'', sourceVolume = ''sandbox'', readOnly = True\<rparr>],
        containerDependencies =
          [\<lparr>dep_container = ''SandboxFileMount'', condition = COMPLETE\<rparr>]\<rparr>,
      \<lparr>containerName = ''PluginDaemon'', props = PluginDaemon_options p, mountPoints = [],
        containerDependencies = []\<rparr>,
      \<lparr>containerName = ''ExternalKnowledgeBaseAPI'',
        props = ExternalKnowledgeBaseAPI_options p, mountPoints = [],
        containerDependencies = []\<rparr>]"
  by (simp add: api_taskDefinition_def newFargateTaskDefinition_def addContainer_def
      addMountPoints_def addContainerDependencies_def on_container_def grantReadWrite_def
      addToPrincipalPolicy_def volumeName_def)

lemma api_taskRole:
  "taskRole (api_taskDefinition p) =
     \<lparr>grants = [GrantReadWrite (storageBucket p)], principalPolicy = [api_policy]\<rparr>"
  by (simp add: api_taskDefinition_def newFargateTaskDefinition_def addContainer_def
      addMountPoints_def addContainerDependencies_def on_container_def grantReadWrite_def
      addToPrincipalPolicy_def)

lemma api_volumes: "volumes (api_taskDefinition p) = [''sandbox'']"
  by (simp add: api_taskDefinition_def newFargateTaskDefinition_def addContainer_def
      addMountPoints_def addContainerDependencies_def on_container_def grantReadWrite_def
      addToPrincipalPolicy_def volumeName_def)

lemma console_containers:
  "containers (console_taskDefinition getEnv getSec p) =
     [\<lparr>containerName = ''Main'', props = console_Main_options getEnv getSec p,
        mountPoints = [], containerDependencies = []\<rparr>]"
  by (simp add: console_taskDefinition_def newFargateTaskDefinition_def addContainer_def
      grantReadWrite_def addToPrincipalPolicy_def)

lemma console_taskRole:
  "taskRole (console_taskDefinition getEnv getSec p) =
     \<lparr>grants = [GrantReadWrite (storageBucket p)], principalPolicy = [console_policy]\<rparr>"
  by (simp add: console_taskDefinition_def newFargateTaskDefinition_def addContainer_def
      grantReadWrite_def addToPrincipalPolicy_def)

lemma Sandbox_environment:
  "environment (Sandbox_options p) = Some
     ([(''GIN_MODE'', ''release''), (''WORKER_TIMEOUT'', ''15''), (''ENABLE_NETWORK'', ''true'')] @
      (if allowAnySyscalls p then [(''ALLOWED_SYSCALLS'', ALLOWED_SYSCALLS_value)] else []) @
      [(''PYTHON_LIB_PATH'', PYTHON_LIB_PATH_value)])"
  by (simp add: Sandbox_options_def object_literal_def)

lemma Main_secrets:
  "secrets (Main_options p) = Some
     [(''DB_USERNAME'', FromSecretsManager (pg_secret (postgres p)) (Some ''username'')),
      (''DB_HOST'', FromSecretsManager (pg_secret (postgres p)) (Some ''host'')),
      (''DB_PORT'', FromSecretsManager (pg_secret (postgres p)) (Some ''port'')),
      (''DB_PASSWORD'', FromSecretsManager (pg_secret (postgres p)) (Some ''password'')),
      (''PGVECTOR_USER'', FromSecretsManager (pg_secret (postgres p)) (Some ''username'')),
      (''PGVECTOR_HOST'', FromSecretsManager (pg_secret (postgres p)) (Some ''host'')),
      (''PGVECTOR_PORT'', FromSecretsManager (pg_secret (postgres p)) (Some ''port'')),
      (''PGVECTOR_PASSWORD'', FromSecretsManager (pg_secret (postgres p)) (Some ''password'')),
      (''REDIS_PASSWORD'', FromSecretsManager (redis_secret (redis p)) None),
      (''CELERY_BROKER_URL'', FromSsmParameter (brokerUrl (redis p))),
      (''SECRET_KEY'', FromSecretsManager encryptionSecret None),
      (''CODE_EXECUTION_API_KEY'', FromSecretsManager encryptionSecret None),
      (''INNER_API_KEY_FOR_PLUGIN'', FromSecretsManager encryptionSecret None),
      (''PLUGIN_API_KEY'', FromSecretsManager encryptionSecret None)]"
  by (simp add: Main_options_def object_literal_def)

lemma Worker_secrets:
  "secrets (Worker_options p) = Some
     [(''DB_USERNAME'', FromSecretsManager (pg_secret (postgres p)) (Some ''username'')),
      (''DB_HOST'', FromSecretsManager (pg_secret (postgres p)) (Some ''host'')),
      (''DB_PORT'', FromSecretsManager (pg_secret (postgres p)) (Some ''port'')),
      (''DB_PASSWORD'', FromSecretsManager (pg_secret (postgres p)) (Some ''password'')),
      (''PGVECTOR_USER'', FromSecretsManager (pg_secret (postgres p)) (Some ''username'')),
      (''PGVECTOR_HOST'', FromSecretsManager (pg_secret (postgres p)) (Some ''host'')),
      (''PGVECTOR_PORT'', FromSecretsManager (pg_secret (postgres p)) (Some ''port'')),
      (''PGVECTOR_PASSWORD'', FromSecretsManager (pg_secret (postgres p)) (Some ''password'')),
      (''REDIS_PASSWORD'', FromSecretsManager (redis_secret (redis p)) None),
      (''CELERY_BROKER_URL'', FromSsmParameter (brokerUrl (redis p))),
      (''SECRET_KEY'', FromSecretsManager encryptionSecret None),
      (''PLUGIN_API_KEY'', FromSecretsManager encryptionSecret None)]"
  by (simp add: Worker_options_def object_literal_def)

lemma Sandbox_secrets:
  "secrets (Sandbox_options p) = Some [(''API_KEY'', FromSecretsManager encryptionSecret None)]"
  by (simp add: Sandbox_options_def object_literal_def)

lemma PluginDaemon_secrets:
  "secrets (PluginDaemon_options p) = Some
     [(''DB_USERNAME'', FromSecretsManager (pg_secret (postgres p)) (Some ''username'')),
      (''DB_HOST'', FromSecretsManager (pg_secret (postgres p)) (Some ''host'')),
      (''DB_PORT'', FromSecretsManager (pg_secret (postgres p)) (Some ''port'')),
      (''DB_PASSWORD'', FromSecretsManager (pg_secret (postgres p)) (Some ''password'')),
      (''PGVECTOR_USER'', FromSecretsManager (pg_secret (postgres p)) (Some ''username'')),
      (''PGVECTOR_HOST'', FromSecretsManager (pg_secret (postgres p)) (Some ''host'')),
      (''PGVECTOR_PORT'', FromSecretsManager (pg_secret (postgres p)) (Some ''port'')),
      (''PGVECTOR_PASSWORD'', FromSecretsManager (pg_secret (postgres p)) (Some ''password'')),
      (''REDIS_PASSWORD'', FromSecretsManager (redis_secret (redis p)) None),
      (''CELERY_BROKER_URL'', FromSsmParameter (brokerUrl (redis p))),
      (''SECRET_KEY'', FromSecretsManager encryptionSecret None),
      (''CODE_EXECUTION_API_KEY'', FromSecretsManager encryptionSecret None),
      (''DIFY_INNER_API_KEY'', FromSecretsManager encryptionSecret None),
      (''SERVER_KEY'', FromSecretsManager encryptionSecret None)]"
  by (simp add: PluginDaemon_options_def object_literal_def)

lemma other_secrets:
  "secrets SandboxFileMount_options = None"
  "secrets (ExternalKnowledgeBaseAPI_options p) = None"
  by (simp_all add: SandboxFileMount_options_def no_options_def
      ExternalKnowledgeBaseAPI_options_def)

text \<open>The fixed part of the console container's two maps, before the spread.\<close>

lemma console_environment:
  "environment (console_Main_options getEnv getSec p) = Some
     (fold (\<lambda>(k, v). AList.update k v) (getEnv ''api'' (additionalEnvironmentVariables p))
       [(''MODE'', ''api''),
        (''CONSOLE_WEB_URL'', url (alb p)),
        (''CONSOLE_API_URL'', url (alb p)),
        (''SERVICE_API_URL'', url (alb p)),
        (''APP_WEB_URL'', url (alb p)),
        (''SQLALCHEMY_POOL_PRE_PING'', ''True''),
        (''REDIS_HOST'', endpoint (redis p)),
        (''REDIS_PORT'', number_toString (port (redis p))),
        (''REDIS_USE_SSL'', ''true''),
        (''REDIS_DB'', ''0''),
        (''WEB_API_CORS_ALLOW_ORIGINS'', ''*''),
        (''CONSOLE_CORS_ALLOW_ORIGINS'', ''*''),
        (''STORAGE_TYPE'', ''s3''),
        (''S3_BUCKET_NAME'', bucketName (storageBucket p)),
        (''S3_REGION'', bucket_region (storageBucket p)),
        (''S3_USE_AWS_MANAGED_IAM'', ''true''),
        (''DB_DATABASE'', databaseName (postgres p)),
        (''VECTOR_STORE'', ''pgvector''),
        (''PGVECTOR_DATABASE'', pgVectorDatabaseName (postgres p)),
        (''CODE_EXECUTION_ENDPOINT'', ''http://localhost:8194'')])"
  by (simp add: console_Main_options_def object_literal_def)

lemma console_secrets:
  "secrets (console_Main_options getEnv getSec p) = Some
     (fold (\<lambda>(k, v). AList.update k v) (getSec ''api'' (additionalEnvironmentVariables p))
       [(''DB_USERNAME'', FromSecretsManager (pg_secret (postgres p)) (Some ''username'')),
        (''DB_HOST'', FromSecretsManager (pg_secret (postgres p)) (Some ''host'')),
        (''DB_PORT'', FromSecretsManager (pg_secret (postgres p)) (Some ''port'')),
        (''DB_PASSWORD'', FromSecretsManager (pg_secret (postgres p)) (Some ''password'')),
        (''PGVECTOR_USER'', FromSecretsManager (pg_secret (postgres p)) (Some ''username'')),
        (''PGVECTOR_HOST'', FromSecretsManager (pg_secret (postgres p)) (Some ''host'')),
        (''PGVECTOR_PORT'', FromSecretsManager (pg_secret (postgres p)) (Some ''port'')),
        (''PGVECTOR_PASSWORD'', FromSecretsManager (pg_secret (postgres p)) (Some ''password'')),
        (''REDIS_PASSWORD'', FromSecretsManager (redis_secret (redis p)) None),
        (''CELERY_BROKER_URL'', FromSsmParameter (brokerUrl (redis p)))])"
  by (simp add: console_Main_options_def object_literal_def)

lemma number_toString_examples:
  "number_toString 0 = ''0''"
  "number_toString 10 = ''10''"
  "number_toString 456 = ''456''"
  "join_numbers '','' [0, 1, 2, 9, 10, 99, 100, 456] = ''0,1,2,9,10,99,100,456''"
  by code_simp+

lemma console_secret_entries:
  "(k, v) \<in> set (the (secrets (console_Main_options getEnv getSec q))) \<Longrightarrow>
   v \<in> store_references q \<or> (k, v) \<in> set (getSec ''api'' (additionalEnvironmentVariables q))"
  apply (simp only: console_secrets option.sel)
  apply (drule subsetD [OF spread_entries])
  apply (auto simp add: store_references_def)
  done

lemma Main_environment:
  "environment (Main_options p) = Some
     [(''MODE'', ''api''),
        (''LOG_LEVEL'', if debug_or_default p then ''DEBUG'' else ''ERROR''),
        (''DEBUG'', if debug_or_default p then ''true'' else ''false''),
        (''CONSOLE_WEB_URL'', url (alb p)),
        (''CONSOLE_API_URL'', url (alb p)),
        (''SERVICE_API_URL'', url (alb p)),
        (''APP_WEB_URL'', url (alb p)),
        (''SQLALCHEMY_POOL_PRE_PING'', ''True''),
        (''REDIS_HOST'', endpoint (redis p)),
        (''REDIS_PORT'', number_toString (port (redis p))),
        (''REDIS_USE_SSL'', ''true''),
        (''REDIS_DB'', ''0''),
        (''WEB_API_CORS_ALLOW_ORIGINS'', ''*''),
        (''CONSOLE_CORS_ALLOW_ORIGINS'', ''*''),
        (''STORAGE_TYPE'', ''s3''),
        (''S3_BUCKET_NAME'', bucketName (storageBucket p)),
        (''S3_REGION'', bucket_region (storageBucket p)),
        (''DB_DATABASE'', databaseName (postgres p)),
        (''VECTOR_STORE'', ''pgvector''),
        (''PGVECTOR_DATABASE'', pgVectorDatabaseName (postgres p)),
        (''CODE_EXECUTION_ENDPOINT'', ''http://localhost:8194''),
        (''PLUGIN_DAEMON_URL'', ''http://localhost:5002'')]"
  by (simp add: Main_options_def object_literal_def)

lemma Worker_environment:
  "environment (Worker_options p) = Some
     [(''MODE'', ''worker''),
        (''LOG_LEVEL'', if debug_or_default p then ''DEBUG'' else ''ERROR''),
        (''DEBUG'', if debug_or_default p then ''true'' else ''false''),
        (''MIGRATION_ENABLED'', ''true''),
        (''SQLALCHEMY_POOL_PRE_PING'', ''True''),
        (''REDIS_HOST'', endpoint (redis p)),
        (''REDIS_PORT'', number_toString (port (redis p))),
        (''REDIS_USE_SSL'', ''true''),
        (''REDIS_DB'', ''0''),
        (''STORAGE_TYPE'', ''s3''),
        (''S3_BUCKET_NAME'', bucketName (storageBucket p)),
        (''S3_REGION'', bucket_region (storageBucket p)),
        (''DB_DATABASE'', databaseName (postgres p)),
        (''VECTOR_STORE'', ''pgvector''),
        (''PGVECTOR_DATABASE'', pgVectorDatabaseName (postgres p)),
        (''PLUGIN_API_URL'', ''http://localhost:5002'')]"
  by (simp add: Worker_options_def object_literal_def)

lemma PluginDaemon_environment:
  "environment (PluginDaemon_options p) = Some
     [(''REDIS_HOST'', endpoint (redis p)),
        (''REDIS_PORT'', number_toString (port (redis p))),
        (''REDIS_USE_SSL'', ''true''),
        (''REDIS_DB'', ''0''),
        (''VECTOR_STORE'', ''pgvector''),
        (''PGVECTOR_DATABASE'', pgVectorDatabaseName (postgres p)),
        (''CODE_EXECUTION_ENDPOINT'', ''http://localhost:8194''),
        (''DB_DATABASE'', ''dify_plugin''),
        (''SERVER_PORT'', ''5002''),
        (''PLUGIN_STORAGE_TYPE'', ''local''),
        (''PLUGIN_STORAGE_OSS_BUCKET'', bucketName (storageBucket p)),
        (''MAX_PLUGIN_PACKAGE_SIZE'', ''52428800''),
        (''DIFY_INNER_API_URL'', ''http://localhost:5001''),
        (''PLUGIN_WORKING_PATH'', ''/app/storage/cwd''),
        (''FORCE_VERIFYING_SIGNATURE'', ''true'')]"
  by (simp add: PluginDaemon_options_def object_literal_def)

lemma other_environments:
  "environment SandboxFileMount_options = None"
  "environment (ExternalKnowledgeBaseAPI_options p) =
     Some [(''BEARER_TOKEN'', ''dummy-key''), (''BEDROCK_REGION'', ''us-west-2'')]"
  by (simp_all add: SandboxFileMount_options_def no_options_def
      ExternalKnowledgeBaseAPI_options_def object_literal_def)

lemma spread_distinct_lookup:
  "distinct (map fst src) \<Longrightarrow>
   map_of (fold (\<lambda>(k, v). AList.update k v) src obj) k =
     (case map_of src k of Some v \<Rightarrow> Some v | None \<Rightarrow> map_of obj k)"
  by (simp add: spread_lookup map_of_rev_distinct map_add_def)

section \<open>The claims\<close>

subsection \<open>C1: the unsafe-syscall toggle\<close>

text \<open>
  Claim C1. The environment of the \<open>Sandbox\<close> container holds \<open>ALLOWED_SYSCALLS\<close> exactly
  when \<open>allowAnySyscalls\<close> is true, and its value is then the string below: the integers
  from 0 up to but not including 457, in increasing order, each in decimal, joined by
  commas (written here in rows of ten). When the boolean is false the variable is absent.
  The container itself is always there, so an absent variable is not an absent container.
\<close>

theorem sandbox_ALLOWED_SYSCALLS:
  "findContainer ''Sandbox'' (taskDefinition (ApiService p)) \<noteq> None \<and>
   env_of ''Sandbox'' ''ALLOWED_SYSCALLS'' (taskDefinition (ApiService p)) =
     (if allowAnySyscalls p
      then Some
       (''0,1,2,3,4,5,6,7,8,9,'' @
        ''10,11,12,13,14,15,16,17,18,19,'' @
        ''20,21,22,23,24,25,26,27,28,29,'' @
        ''30,31,32,33,34,35,36,37,38,39,'' @
        ''40,41,42,43,44,45,46,47,48,49,'' @
        ''50,51,52,53,54,55,56,57,58,59,'' @
        ''60,61,62,63,64,65,66,67,68,69,'' @
        ''70,71,72,73,74,75,76,77,78,79,'' @
        ''80,81,82,83,84,85,86,87,88,89,'' @
        ''90,91,92,93,94,95,96,97,98,99,'' @
        ''100,101,102,103,104,105,106,107,108,109,'' @
        ''110,111,112,113,114,115,116,117,118,119,'' @
        ''120,121,122,123,124,125,126,127,128,129,'' @
        ''130,131,132,133,134,135,136,137,138,139,'' @
        ''140,141,142,143,144,145,146,147,148,149,'' @
        ''150,151,152,153,154,155,156,157,158,159,'' @
        ''160,161,162,163,164,165,166,167,168,169,'' @
        ''170,171,172,173,174,175,176,177,178,179,'' @
        ''180,181,182,183,184,185,186,187,188,189,'' @
        ''190,191,192,193,194,195,196,197,198,199,'' @
        ''200,201,202,203,204,205,206,207,208,209,'' @
        ''210,211,212,213,214,215,216,217,218,219,'' @
        ''220,221,222,223,224,225,226,227,228,229,'' @
        ''230,231,232,233,234,235,236,237,238,239,'' @
        ''240,241,242,243,244,245,246,247,248,249,'' @
        ''250,251,252,253,254,255,256,257,258,259,'' @
        ''260,261,262,263,264,265,266,267,268,269,'' @
        ''270,271,272,273,274,275,276,277,278,279,'' @
        ''280,281,282,283,284,285,286,287,288,289,'' @
        ''290,291,292,293,294,295,296,297,298,299,'' @
        ''300,301,302,303,304,305,306,307,308,309,'' @
        ''310,311,312,313,314,315,316,317,318,319,'' @
        ''320,321,322,323,324,325,326,327,328,329,'' @
        ''330,331,332,333,334,335,336,337,338,339,'' @
        ''340,341,342,343,344,345,346,347,348,349,'' @
        ''350,351,352,353,354,355,356,357,358,359,'' @
        ''360,361,362,363,364,365,366,367,368,369,'' @
        ''370,371,372,373,374,375,376,377,378,379,'' @
        ''380,381,382,383,384,385,386,387,388,389,'' @
        ''390,391,392,393,394,395,396,397,398,399,'' @
        ''400,401,402,403,404,405,406,407,408,409,'' @
        ''410,411,412,413,414,415,416,417,418,419,'' @
        ''420,421,422,423,424,425,426,427,428,429,'' @
        ''430,431,432,433,434,435,436,437,438,439,'' @
        ''440,441,442,443,444,445,446,447,448,449,'' @
        ''450,451,452,453,454,455,456'')
      else None)"
  (is "_ \<and> _ = (if _ then Some ?literal else None)")
proof -
  have "ALLOWED_SYSCALLS_value = ?literal"
    unfolding ALLOWED_SYSCALLS_value_eq by code_simp
  then show ?thesis
    by (simp add: ApiService_def env_of_def findContainer_def api_containers the_environment_def
        Sandbox_environment)
qed

subsection \<open>C2: the sandbox waits for its initializer\<close>

text \<open>
  Claim C2. For every props, the \<open>Sandbox\<close> container of the primary task definition has
  exactly one container dependency: on \<open>SandboxFileMount\<close>, a container of the same task
  definition, with the condition \<open>COMPLETE\<close> (so neither \<open>HEALTHY\<close> nor \<open>START\<close>). There is
  one container of that name.
\<close>

theorem sandbox_waits_for_initializer:
  "map_option containerDependencies (findContainer ''Sandbox'' (taskDefinition (ApiService p))) =
     Some [\<lparr>dep_container = ''SandboxFileMount'', condition = COMPLETE\<rparr>] \<and>
   length (filter (\<lambda>c. containerName c = ''Sandbox'') (containers (taskDefinition (ApiService p)))) = 1 \<and>
   findContainer ''SandboxFileMount'' (taskDefinition (ApiService p)) \<noteq> None"
  by (simp add: ApiService_def findContainer_def api_containers)

subsection \<open>C3: the task role of the console service\<close>

text \<open>
  Claim C3 says that the console task role gets the same Bedrock action set as the primary
  task role. It does not: the console statement also lists
  \<open>bedrock:RetrieveAndGenerate\<close>, so the two sets differ on the example props.
\<close>

theorem console_actions_differ:
  "set (role_actions (taskDefinition (ConsoleService demo_getEnv demo_getSec demo_console_props))) \<noteq>
   set (role_actions (taskDefinition (ApiService demo_api_props)))"
proof -
  have "''bedrock:RetrieveAndGenerate'' \<in>
      set (role_actions (taskDefinition (ConsoleService demo_getEnv demo_getSec demo_console_props)))"
    by (simp add: ConsoleService_def role_actions_def console_taskRole console_policy_def)
  moreover have "''bedrock:RetrieveAndGenerate'' \<notin>
      set (role_actions (taskDefinition (ApiService demo_api_props)))"
    by (simp add: ApiService_def role_actions_def api_taskRole api_policy_def)
  ultimately show ?thesis by metis
qed

text \<open>
  Claim C3, amended. Both task roles get read/write on the storage bucket of their props.
  The primary role's actions are \<open>bedrock:InvokeModel\<close>,
  \<open>bedrock:InvokeModelWithResponseStream\<close>, \<open>bedrock:Rerank\<close> and \<open>bedrock:Retrieve\<close>; the
  console role's actions are these four followed by \<open>bedrock:RetrieveAndGenerate\<close>, which
  the primary role lacks; both on the resources \<open>*\<close>. The console construct calls
  \<open>allowDefaultPortFrom(service)\<close> on the database and on the cache, which opens their
  default ports to traffic coming from the console service.
\<close>

theorem console_role_and_connections:
  "grants (taskRole (taskDefinition (ConsoleService getEnv getSec q))) =
     [GrantReadWrite (storageBucket q)] \<and>
   grants (taskRole (taskDefinition (ApiService p))) = [GrantReadWrite (storageBucket p)] \<and>
   role_actions (taskDefinition (ApiService p)) =
     [''bedrock:InvokeModel'', ''bedrock:InvokeModelWithResponseStream'', ''bedrock:Rerank'',
      ''bedrock:Retrieve''] \<and>
   role_actions (taskDefinition (ConsoleService getEnv getSec q)) =
     [''bedrock:InvokeModel'', ''bedrock:InvokeModelWithResponseStream'', ''bedrock:Rerank'',
      ''bedrock:Retrieve'', ''bedrock:RetrieveAndGenerate''] \<and>
   role_actions (taskDefinition (ConsoleService getEnv getSec q)) =
     role_actions (taskDefinition (ApiService p)) @ [''bedrock:RetrieveAndGenerate''] \<and>
   ''bedrock:RetrieveAndGenerate'' \<notin> set (role_actions (taskDefinition (ApiService p))) \<and>
   map resources (principalPolicy (taskRole (taskDefinition (ApiService p)))) = [[''*'']] \<and>
   map resources (principalPolicy (taskRole (taskDefinition (ConsoleService getEnv getSec q)))) =
     [[''*'']] \<and>
   map resources (principalPolicy (taskRole (taskDefinition (ConsoleService getEnv getSec q)))) =
     map resources (principalPolicy (taskRole (taskDefinition (ApiService p)))) \<and>
   connectionCalls (ConsoleService getEnv getSec q) =
     [AllowDefaultPortFrom ThePostgres TheService, AllowDefaultPortFrom TheRedis TheService] \<and>
   map allowed_flow (connectionCalls (ConsoleService getEnv getSec q)) =
     [(TheService, ThePostgres), (TheService, TheRedis)]"
  by (simp add: ConsoleService_def ApiService_def role_actions_def console_taskRole api_taskRole
      console_policy_def api_policy_def)

subsection \<open>C4: the routing rules of the primary service\<close>

text \<open>
  Claim C4. The primary construct registers one load-balancer target. Its paths are the four
  prefixes followed by their \<open>/*\<close> forms and nothing else, its health-check path is
  \<open>/health\<close>, and its port is 5001, the port the \<open>Main\<close> container maps.
\<close>

theorem api_routing_rules:
  "\<exists>r. albServices (ApiService p) = [r] \<and>
     paths r = [''/console/api'', ''/api'', ''/v1'', ''/files'',
                ''/console/api/*'', ''/api/*'', ''/v1/*'', ''/files/*''] \<and>
     set (paths r) = (\<Union>q\<in>{''/console/api'', ''/api'', ''/v1'', ''/files''}. {q, q @ ''/*''}) \<and>
     healthCheckPath r = ''/health'' \<and>
     alb_port r = 5001 \<and>
     map_option (\<lambda>c. portMappings (props c)) (findContainer ''Main'' (taskDefinition (ApiService p))) =
       Some (Some [alb_port r])"
  by (auto simp add: ApiService_def api_paths_def api_port_def findContainer_def api_containers
      Main_options_def)

subsection \<open>C5: the console service starts at zero\<close>

text \<open>
  Claim C5. The console service is created with \<open>desiredCount\<close> 0, while the primary service
  passes no \<open>desiredCount\<close>. The single console container has no \<open>portMappings\<close>, and the
  console construct registers nothing on the load balancer.
\<close>

theorem console_starts_at_zero:
  "desiredCount (service (ConsoleService getEnv getSec q)) = Some 0 \<and>
   desiredCount (service (ApiService p)) = None \<and>
   map (\<lambda>c. portMappings (props c)) (containers (taskDefinition (ConsoleService getEnv getSec q))) =
     [None] \<and>
   albServices (ConsoleService getEnv getSec q) = []"
  by (simp add: ConsoleService_def ApiService_def console_containers console_Main_options_def)

subsection \<open>C6: secrets are references\<close>

text \<open>
  Claim C6. A value of a \<open>secrets\<close> map has type \<open>ecs_Secret\<close>, whose two constructors are
  references into Secrets Manager and into the parameter store: no literal string fits.
  Beyond the type, every entry of every container of the primary task definition is one of
  the references into the stores of the database and the cache, or the reference to the
  generated secret; every entry of the console container is one of the former or an entry
  returned by \<open>getSec\<close>.
\<close>

theorem secrets_are_references:
  "(\<forall>c\<in>set (containers (taskDefinition (ApiService p))).
      \<forall>(k, v)\<in>set (the_secrets c).
        v \<in> store_references p \<union> {FromSecretsManager encryptionSecret None}) \<and>
   (\<forall>c\<in>set (containers (taskDefinition (ConsoleService getEnv getSec q))).
      \<forall>(k, v)\<in>set (the_secrets c).
        v \<in> store_references q \<union> snd ` set (getSec ''api'' (additionalEnvironmentVariables q)))"
proof (intro conjI ballI)
  fix c kv
  assume "c \<in> set (containers (taskDefinition (ApiService p)))" and "kv \<in> set (the_secrets c)"
  then show "case kv of (k, v) \<Rightarrow>
      v \<in> store_references p \<union> {FromSecretsManager encryptionSecret None}"
    by (auto simp add: ApiService_def api_containers the_secrets_def Main_secrets Worker_secrets
        Sandbox_secrets PluginDaemon_secrets other_secrets store_references_def)
next
  fix c kv
  assume c: "c \<in> set (containers (taskDefinition (ConsoleService getEnv getSec q)))"
    and kv: "kv \<in> set (the_secrets c)"
  let ?src = "getSec ''api'' (additionalEnvironmentVariables q)"
  from c have "secrets (props c) = secrets (console_Main_options getEnv getSec q)"
    by (simp add: ConsoleService_def console_containers)
  with kv have "kv \<in> set (the (secrets (console_Main_options getEnv getSec q)))"
    by (simp add: the_secrets_def console_secrets)
  then have "snd kv \<in> store_references q \<or> kv \<in> set ?src"
    using console_secret_entries [of "fst kv" "snd kv" getEnv getSec q] by simp
  then show "case kv of (k, v) \<Rightarrow> v \<in> store_references q \<union> snd ` set ?src"
    by (cases kv) force
qed

text \<open>
  On the example props: \<open>DB_PASSWORD\<close> of the primary \<open>Main\<close> container, and the
  \<open>DB_PASSWORD\<close> that the additional variables put into the console container.
\<close>

theorem secrets_are_references_witness:
  "FromSecretsManager (ExternalSecret ''postgres'') (Some ''password'')
     \<in> store_references demo_api_props \<union> {FromSecretsManager encryptionSecret None} \<and>
   FromSecretsManager (ExternalSecret ''override'') None
     \<in> store_references demo_console_props \<union>
        snd ` set (demo_getSec ''api'' (additionalEnvironmentVariables demo_console_props))"
proof -
  let ?api = "taskDefinition (ApiService demo_api_props)"
  let ?console = "taskDefinition (ConsoleService demo_getEnv demo_getSec demo_console_props)"
  let ?a = "\<lparr>containerName = ''Main'', props = Main_options demo_api_props, mountPoints = [],
     containerDependencies = []\<rparr>"
  let ?c = "\<lparr>containerName = ''Main'',
     props = console_Main_options demo_getEnv demo_getSec demo_console_props,
     mountPoints = [], containerDependencies = []\<rparr>"
  have a: "?a \<in> set (containers ?api)"
    by (simp add: ApiService_def api_containers)
  have ka: "(''DB_PASSWORD'', FromSecretsManager (ExternalSecret ''postgres'') (Some ''password''))
      \<in> set (the_secrets ?a)"
    by (simp add: the_secrets_def Main_secrets demo_api_props_def demo_props_def
        ServiceProps.defs ApiServiceProps.defs)
  have c: "?c \<in> set (containers ?console)"
    by (simp add: ConsoleService_def console_containers)
  have kc: "(''DB_PASSWORD'', FromSecretsManager (ExternalSecret ''override'') None)
      \<in> set (the_secrets ?c)"
    by (simp add: the_secrets_def console_secrets demo_console_props_def demo_props_def
        demo_getSec_def ServiceProps.defs ConsoleServiceProps.defs)
  from secrets_are_references [of demo_api_props demo_getEnv demo_getSec demo_console_props]
    a ka c kc
  show ?thesis by blast
qed

subsection \<open>C7: one generated secret behind every credential slot\<close>

text \<open>
  Claim C7 lists \<open>CODE_EXECUTION_API_KEY\<close> and \<open>INNER_API_KEY_FOR_PLUGIN\<close> among the slots of
  the worker container. The \<open>Worker\<close> container has neither: its only slots backed by the
  generated secret are \<open>SECRET_KEY\<close> and \<open>PLUGIN_API_KEY\<close>.
\<close>

theorem worker_has_no_code_execution_key:
  "findContainer ''Worker'' (taskDefinition (ApiService demo_api_props)) \<noteq> None \<and>
   secret_of ''Worker'' ''CODE_EXECUTION_API_KEY'' (taskDefinition (ApiService demo_api_props)) = None \<and>
   secret_of ''Worker'' ''INNER_API_KEY_FOR_PLUGIN'' (taskDefinition (ApiService demo_api_props)) = None"
  by (simp add: ApiService_def secret_of_def findContainer_def api_containers the_secrets_def
      Worker_secrets)

text \<open>
  Claim C7, amended. The primary construct creates exactly one secret. \<open>SECRET_KEY\<close>,
  \<open>CODE_EXECUTION_API_KEY\<close>, \<open>INNER_API_KEY_FOR_PLUGIN\<close> and \<open>PLUGIN_API_KEY\<close> of \<open>Main\<close>,
  \<open>SECRET_KEY\<close> and \<open>PLUGIN_API_KEY\<close> of \<open>Worker\<close>, \<open>API_KEY\<close> of \<open>Sandbox\<close>, and
  \<open>SECRET_KEY\<close>, \<open>CODE_EXECUTION_API_KEY\<close>, \<open>DIFY_INNER_API_KEY\<close> and \<open>SERVER_KEY\<close> of
  \<open>PluginDaemon\<close> all reference that secret. For every props the \<open>Worker\<close> container is
  there and has no \<open>CODE_EXECUTION_API_KEY\<close> and no \<open>INNER_API_KEY_FOR_PLUGIN\<close>.
\<close>

theorem one_generated_secret:
  "newSecrets (ApiService p) = [encryptionSecret] \<and>
   map (\<lambda>k. secret_of ''Main'' k (taskDefinition (ApiService p)))
     [''SECRET_KEY'', ''CODE_EXECUTION_API_KEY'', ''INNER_API_KEY_FOR_PLUGIN'', ''PLUGIN_API_KEY''] =
     replicate 4 (Some (FromSecretsManager encryptionSecret None)) \<and>
   map (\<lambda>k. secret_of ''Worker'' k (taskDefinition (ApiService p)))
     [''SECRET_KEY'', ''PLUGIN_API_KEY''] =
     replicate 2 (Some (FromSecretsManager encryptionSecret None)) \<and>
   findContainer ''Worker'' (taskDefinition (ApiService p)) \<noteq> None \<and>
   secret_of ''Worker'' ''CODE_EXECUTION_API_KEY'' (taskDefinition (ApiService p)) = None \<and>
   secret_of ''Worker'' ''INNER_API_KEY_FOR_PLUGIN'' (taskDefinition (ApiService p)) = None \<and>
   secret_of ''Sandbox'' ''API_KEY'' (taskDefinition (ApiService p)) =
     Some (FromSecretsManager encryptionSecret None) \<and>
   map (\<lambda>k. secret_of ''PluginDaemon'' k (taskDefinition (ApiService p)))
     [''SECRET_KEY'', ''CODE_EXECUTION_API_KEY'', ''DIFY_INNER_API_KEY'', ''SERVER_KEY''] =
     replicate 4 (Some (FromSecretsManager encryptionSecret None))"
  by (simp add: ApiService_def secret_of_def findContainer_def api_containers the_secrets_def
      Main_secrets Worker_secrets Sandbox_secrets PluginDaemon_secrets numeral_eq_Suc)

subsection \<open>C8: additional variables override the fixed ones\<close>

text \<open>
  Claim C8 says that the primary construct too merges a caller-supplied map. Its props
  declare no such property, and a map passed along as a further property is not read: with
  \<open>MODE\<close> set to \<open>custom\<close> in the map, the primary \<open>Main\<close> container still has \<open>MODE\<close>
  \<open>api\<close>.
\<close>

theorem api_ignores_override_map:
  "map_of (fst (additionalEnvironmentVariables demo_console_props)) ''MODE'' = Some ''custom'' \<and>
   env_of ''Main'' ''MODE''
     (taskDefinition (ApiService
        (ApiServiceProps.extend demo_api_props (additionalEnvironmentVariables demo_console_props)))) =
     Some ''api''"
  by (simp add: ApiService_def env_of_def findContainer_def api_containers the_environment_def
      Main_options_def object_literal_def demo_console_props_def
      ServiceProps.defs ConsoleServiceProps.defs)

text \<open>
  Claim C8, amended. The console construct merges the caller-supplied environment and
  secrets maps into its container definition, and the caller wins on a conflict: a key of
  the caller-supplied map carries the caller-supplied value, whatever the fixed variables
  say, and every other key carries its fixed value, given in full below. A JavaScript
  object has each key once, hence the two premises. The primary construct merges nothing:
  for every props, also props that carry further properties, the environment and the
  secrets of each of its containers are the fixed maps given in full below.
\<close>

theorem console_override_wins:
  assumes "distinct (map fst (fst (additionalEnvironmentVariables q)))"
    and "distinct (map fst (snd (additionalEnvironmentVariables q)))"
  shows
    "env_of ''Main'' k
       (taskDefinition
        (ConsoleService getAdditionalEnvironmentVariables getAdditionalSecretVariables q)) =
       (case map_of (fst (additionalEnvironmentVariables q)) k of
          Some v \<Rightarrow> Some v
        | None \<Rightarrow> map_of
       [(''MODE'', ''api''),
        (''CONSOLE_WEB_URL'', url (alb q)),
        (''CONSOLE_API_URL'', url (alb q)),
        (''SERVICE_API_URL'', url (alb q)),
        (''APP_WEB_URL'', url (alb q)),
        (''SQLALCHEMY_POOL_PRE_PING'', ''True''),
        (''REDIS_HOST'', endpoint (redis q)),
        (''REDIS_PORT'', number_toString (port (redis q))),
        (''REDIS_USE_SSL'', ''true''),
        (''REDIS_DB'', ''0''),
        (''WEB_API_CORS_ALLOW_ORIGINS'', ''*''),
        (''CONSOLE_CORS_ALLOW_ORIGINS'', ''*''),
        (''STORAGE_TYPE'', ''s3''),
        (''S3_BUCKET_NAME'', bucketName (storageBucket q)),
        (''S3_REGION'', bucket_region (storageBucket q)),
        (''S3_USE_AWS_MANAGED_IAM'', ''true''),
        (''DB_DATABASE'', databaseName (postgres q)),
        (''VECTOR_STORE'', ''pgvector''),
        (''PGVECTOR_DATABASE'', pgVectorDatabaseName (postgres q)),
        (''CODE_EXECUTION_ENDPOINT'', ''http://localhost:8194'')] k) \<and>
     secret_of ''Main'' k
       (taskDefinition
        (ConsoleService getAdditionalEnvironmentVariables getAdditionalSecretVariables q)) =
       (case map_of (snd (additionalEnvironmentVariables q)) k of
          Some s \<Rightarrow> Some s
        | None \<Rightarrow> map_of
       [(''DB_USERNAME'', FromSecretsManager (pg_secret (postgres q)) (Some ''username'')),
        (''DB_HOST'', FromSecretsManager (pg_secret (postgres q)) (Some ''host'')),
        (''DB_PORT'', FromSecretsManager (pg_secret (postgres q)) (Some ''port'')),
        (''DB_PASSWORD'', FromSecretsManager (pg_secret (postgres q)) (Some ''password'')),
        (''PGVECTOR_USER'', FromSecretsManager (pg_secret (postgres q)) (Some ''username'')),
        (''PGVECTOR_HOST'', FromSecretsManager (pg_secret (postgres q)) (Some ''host'')),
        (''PGVECTOR_PORT'', FromSecretsManager (pg_secret (postgres q)) (Some ''port'')),
        (''PGVECTOR_PASSWORD'', FromSecretsManager (pg_secret (postgres q)) (Some ''password'')),
        (''REDIS_PASSWORD'', FromSecretsManager (redis_secret (redis q)) None),
        (''CELERY_BROKER_URL'', FromSsmParameter (brokerUrl (redis q)))] k) \<and>
     (map_of (fst (additionalEnvironmentVariables q)) k = Some v \<longrightarrow>
        env_of ''Main'' k
          (taskDefinition
        (ConsoleService getAdditionalEnvironmentVariables getAdditionalSecretVariables q)) = Some v) \<and>
     (map_of (snd (additionalEnvironmentVariables q)) k = Some s \<longrightarrow>
        secret_of ''Main'' k
          (taskDefinition
        (ConsoleService getAdditionalEnvironmentVariables getAdditionalSecretVariables q)) = Some s) \<and>
     map (\<lambda>c. (containerName c, environment (props c), secrets (props c)))
       (containers (taskDefinition (ApiService p))) =
       [(''Main'',
         Some
       [(''MODE'', ''api''),
        (''LOG_LEVEL'', if debug_or_default p then ''DEBUG'' else ''ERROR''),
        (''DEBUG'', if debug_or_default p then ''true'' else ''false''),
        (''CONSOLE_WEB_URL'', url (alb p)),
        (''CONSOLE_API_URL'', url (alb p)),
        (''SERVICE_API_URL'', url (alb p)),
        (''APP_WEB_URL'', url (alb p)),
        (''SQLALCHEMY_POOL_PRE_PING'', ''True''),
        (''REDIS_HOST'', endpoint (redis p)),
        (''REDIS_PORT'', number_toString (port (redis p))),
        (''REDIS_USE_SSL'', ''true''),
        (''REDIS_DB'', ''0''),
        (''WEB_API_CORS_ALLOW_ORIGINS'', ''*''),
        (''CONSOLE_CORS_ALLOW_ORIGINS'', ''*''),
        (''STORAGE_TYPE'', ''s3''),
        (''S3_BUCKET_NAME'', bucketName (storageBucket p)),
        (''S3_REGION'', bucket_region (storageBucket p)),
        (''DB_DATABASE'', databaseName (postgres p)),
        (''VECTOR_STORE'', ''pgvector''),
        (''PGVECTOR_DATABASE'', pgVectorDatabaseName (postgres p)),
        (''CODE_EXECUTION_ENDPOINT'', ''http://localhost:8194''),
        (''PLUGIN_DAEMON_URL'', ''http://localhost:5002'')],
         Some
       [(''DB_USERNAME'', FromSecretsManager (pg_secret (postgres p)) (Some ''username'')),
        (''DB_HOST'', FromSecretsManager (pg_secret (postgres p)) (Some ''host'')),
        (''DB_PORT'', FromSecretsManager (pg_secret (postgres p)) (Some ''port'')),
        (''DB_PASSWORD'', FromSecretsManager (pg_secret (postgres p)) (Some ''password'')),
        (''PGVECTOR_USER'', FromSecretsManager (pg_secret (postgres p)) (Some ''username'')),
        (''PGVECTOR_HOST'', FromSecretsManager (pg_secret (postgres p)) (Some ''host'')),
        (''PGVECTOR_PORT'', FromSecretsManager (pg_secret (postgres p)) (Some ''port'')),
        (''PGVECTOR_PASSWORD'', FromSecretsManager (pg_secret (postgres p)) (Some ''password'')),
        (''REDIS_PASSWORD'', FromSecretsManager (redis_secret (redis p)) None),
        (''CELERY_BROKER_URL'', FromSsmParameter (brokerUrl (redis p))),
        (''SECRET_KEY'', FromSecretsManager encryptionSecret None),
        (''CODE_EXECUTION_API_KEY'', FromSecretsManager encryptionSecret None),
        (''INNER_API_KEY_FOR_PLUGIN'', FromSecretsManager encryptionSecret None),
        (''PLUGIN_API_KEY'', FromSecretsManager encryptionSecret None)]),
        (''Worker'',
         Some
       [(''MODE'', ''worker''),
        (''LOG_LEVEL'', if debug_or_default p then ''DEBUG'' else ''ERROR''),
        (''DEBUG'', if debug_or_default p then ''true'' else ''false''),
        (''MIGRATION_ENABLED'', ''true''),
        (''SQLALCHEMY_POOL_PRE_PING'', ''True''),
        (''REDIS_HOST'', endpoint (redis p)),
        (''REDIS_PORT'', number_toString (port (redis p))),
        (''REDIS_USE_SSL'', ''true''),
        (''REDIS_DB'', ''0''),
        (''STORAGE_TYPE'', ''s3''),
        (''S3_BUCKET_NAME'', bucketName (storageBucket p)),
        (''S3_REGION'', bucket_region (storageBucket p)),
        (''DB_DATABASE'', databaseName (postgres p)),
        (''VECTOR_STORE'', ''pgvector''),
        (''PGVECTOR_DATABASE'', pgVectorDatabaseName (postgres p)),
        (''PLUGIN_API_URL'', ''http://localhost:5002'')],
         Some
       [(''DB_USERNAME'', FromSecretsManager (pg_secret (postgres p)) (Some ''username'')),
        (''DB_HOST'', FromSecretsManager (pg_secret (postgres p)) (Some ''host'')),
        (''DB_PORT'', FromSecretsManager (pg_secret (postgres p)) (Some ''port'')),
        (''DB_PASSWORD'', FromSecretsManager (pg_secret (postgres p)) (Some ''password'')),
        (''PGVECTOR_USER'', FromSecretsManager (pg_secret (postgres p)) (Some ''username'')),
        (''PGVECTOR_HOST'', FromSecretsManager (pg_secret (postgres p)) (Some ''host'')),
        (''PGVECTOR_PORT'', FromSecretsManager (pg_secret (postgres p)) (Some ''port'')),
        (''PGVECTOR_PASSWORD'', FromSecretsManager (pg_secret (postgres p)) (Some ''password'')),
        (''REDIS_PASSWORD'', FromSecretsManager (redis_secret (redis p)) None),
        (''CELERY_BROKER_URL'', FromSsmParameter (brokerUrl (redis p))),
        (''SECRET_KEY'', FromSecretsManager encryptionSecret None),
        (''PLUGIN_API_KEY'', FromSecretsManager encryptionSecret None)]),
        (''SandboxFileMount'', None, None),
        (''Sandbox'',
         Some
       ([(''GIN_MODE'', ''release''), (''WORKER_TIMEOUT'', ''15''), (''ENABLE_NETWORK'', ''true'')] @
        (if allowAnySyscalls p then [(''ALLOWED_SYSCALLS'', ALLOWED_SYSCALLS_value)] else []) @
        [(''PYTHON_LIB_PATH'', PYTHON_LIB_PATH_value)]),
         Some [(''API_KEY'', FromSecretsManager encryptionSecret None)]),
        (''PluginDaemon'',
         Some
       [(''REDIS_HOST'', endpoint (redis p)),
        (''REDIS_PORT'', number_toString (port (redis p))),
        (''REDIS_USE_SSL'', ''true''),
        (''REDIS_DB'', ''0''),
        (''VECTOR_STORE'', ''pgvector''),
        (''PGVECTOR_DATABASE'', pgVectorDatabaseName (postgres p)),
        (''CODE_EXECUTION_ENDPOINT'', ''http://localhost:8194''),
        (''DB_DATABASE'', ''dify_plugin''),
        (''SERVER_PORT'', ''5002''),
        (''PLUGIN_STORAGE_TYPE'', ''local''),
        (''PLUGIN_STORAGE_OSS_BUCKET'', bucketName (storageBucket p)),
        (''MAX_PLUGIN_PACKAGE_SIZE'', ''52428800''),
        (''DIFY_INNER_API_URL'', ''http://localhost:5001''),
        (''PLUGIN_WORKING_PATH'', ''/app/storage/cwd''),
        (''FORCE_VERIFYING_SIGNATURE'', ''true'')],
         Some
       [(''DB_USERNAME'', FromSecretsManager (pg_secret (postgres p)) (Some ''username'')),
        (''DB_HOST'', FromSecretsManager (pg_secret (postgres p)) (Some ''host'')),
        (''DB_PORT'', FromSecretsManager (pg_secret (postgres p)) (Some ''port'')),
        (''DB_PASSWORD'', FromSecretsManager (pg_secret (postgres p)) (Some ''password'')),
        (''PGVECTOR_USER'', FromSecretsManager (pg_secret (postgres p)) (Some ''username'')),
        (''PGVECTOR_HOST'', FromSecretsManager (pg_secret (postgres p)) (Some ''host'')),
        (''PGVECTOR_PORT'', FromSecretsManager (pg_secret (postgres p)) (Some ''port'')),
        (''PGVECTOR_PASSWORD'', FromSecretsManager (pg_secret (postgres p)) (Some ''password'')),
        (''REDIS_PASSWORD'', FromSecretsManager (redis_secret (redis p)) None),
        (''CELERY_BROKER_URL'', FromSsmParameter (brokerUrl (redis p))),
        (''SECRET_KEY'', FromSecretsManager encryptionSecret None),
        (''CODE_EXECUTION_API_KEY'', FromSecretsManager encryptionSecret None),
        (''DIFY_INNER_API_KEY'', FromSecretsManager encryptionSecret None),
        (''SERVER_KEY'', FromSecretsManager encryptionSecret None)]),
        (''ExternalKnowledgeBaseAPI'',
         Some [(''BEARER_TOKEN'', ''dummy-key''), (''BEDROCK_REGION'', ''us-west-2'')],
         None)]"
proof -
  let ?td = "taskDefinition
    (ConsoleService getAdditionalEnvironmentVariables getAdditionalSecretVariables q)"
  have env: "env_of ''Main'' k ?td =
      (case map_of (fst (additionalEnvironmentVariables q)) k of
         Some v \<Rightarrow> Some v
       | None \<Rightarrow> map_of
       [(''MODE'', ''api''),
        (''CONSOLE_WEB_URL'', url (alb q)),
        (''CONSOLE_API_URL'', url (alb q)),
        (''SERVICE_API_URL'', url (alb q)),
        (''APP_WEB_URL'', url (alb q)),
        (''SQLALCHEMY_POOL_PRE_PING'', ''True''),
        (''REDIS_HOST'', endpoint (redis q)),
        (''REDIS_PORT'', number_toString (port (redis q))),
        (''REDIS_USE_SSL'', ''true''),
        (''REDIS_DB'', ''0''),
        (''WEB_API_CORS_ALLOW_ORIGINS'', ''*''),
        (''CONSOLE_CORS_ALLOW_ORIGINS'', ''*''),
        (''STORAGE_TYPE'', ''s3''),
        (''S3_BUCKET_NAME'', bucketName (storageBucket q)),
        (''S3_REGION'', bucket_region (storageBucket q)),
        (''S3_USE_AWS_MANAGED_IAM'', ''true''),
        (''DB_DATABASE'', databaseName (postgres q)),
        (''VECTOR_STORE'', ''pgvector''),
        (''PGVECTOR_DATABASE'', pgVectorDatabaseName (postgres q)),
        (''CODE_EXECUTION_ENDPOINT'', ''http://localhost:8194'')] k)"
    using assms(1)
    by (simp add: ConsoleService_def env_of_def findContainer_def console_containers
        the_environment_def console_environment getAdditionalEnvironmentVariables_def
        spread_distinct_lookup del: map_of.simps)
  have sec: "secret_of ''Main'' k ?td =
      (case map_of (snd (additionalEnvironmentVariables q)) k of
         Some s \<Rightarrow> Some s
       | None \<Rightarrow> map_of
       [(''DB_USERNAME'', FromSecretsManager (pg_secret (postgres q)) (Some ''username'')),
        (''DB_HOST'', FromSecretsManager (pg_secret (postgres q)) (Some ''host'')),
        (''DB_PORT'', FromSecretsManager (pg_secret (postgres q)) (Some ''port'')),
        (''DB_PASSWORD'', FromSecretsManager (pg_secret (postgres q)) (Some ''password'')),
        (''PGVECTOR_USER'', FromSecretsManager (pg_secret (postgres q)) (Some ''username'')),
        (''PGVECTOR_HOST'', FromSecretsManager (pg_secret (postgres q)) (Some ''host'')),
        (''PGVECTOR_PORT'', FromSecretsManager (pg_secret (postgres q)) (Some ''port'')),
        (''PGVECTOR_PASSWORD'', FromSecretsManager (pg_secret (postgres q)) (Some ''password'')),
        (''REDIS_PASSWORD'', FromSecretsManager (redis_secret (redis q)) None),
        (''CELERY_BROKER_URL'', FromSsmParameter (brokerUrl (redis q)))] k)"
    using assms(2)
    by (simp add: ConsoleService_def secret_of_def findContainer_def console_containers
        the_secrets_def console_secrets getAdditionalSecretVariables_def
        spread_distinct_lookup del: map_of.simps)
  have api: "map (\<lambda>c. (containerName c, environment (props c), secrets (props c)))
      (containers (taskDefinition (ApiService p))) =
      [(''Main'', environment (Main_options p), secrets (Main_options p)),
       (''Worker'', environment (Worker_options p), secrets (Worker_options p)),
       (''SandboxFileMount'', None, None),
       (''Sandbox'', environment (Sandbox_options p), secrets (Sandbox_options p)),
       (''PluginDaemon'', environment (PluginDaemon_options p), secrets (PluginDaemon_options p)),
       (''ExternalKnowledgeBaseAPI'', environment (ExternalKnowledgeBaseAPI_options p), None)]"
    by (simp add: ApiService_def api_containers other_secrets other_environments)
  show ?thesis
    unfolding api env sec
    by (simp only: Main_environment Main_secrets Worker_environment Worker_secrets
        Sandbox_environment Sandbox_secrets PluginDaemon_environment PluginDaemon_secrets
        other_environments)
      (simp del: map_of.simps)
qed

text \<open>
  On the example props, \<open>MODE\<close> and \<open>DB_PASSWORD\<close> are fixed variables that the
  caller-supplied maps replace, and \<open>REDIS_DB\<close> is a fixed variable they leave alone.
\<close>

theorem console_override_wins_witness:
  "env_of ''Main'' ''MODE''
     (taskDefinition
       (ConsoleService getAdditionalEnvironmentVariables getAdditionalSecretVariables
         demo_console_props)) = Some ''custom'' \<and>
   secret_of ''Main'' ''DB_PASSWORD''
     (taskDefinition
       (ConsoleService getAdditionalEnvironmentVariables getAdditionalSecretVariables
         demo_console_props)) =
     Some (FromSecretsManager (ExternalSecret ''override'') None) \<and>
   env_of ''Main'' ''REDIS_DB''
     (taskDefinition
       (ConsoleService getAdditionalEnvironmentVariables getAdditionalSecretVariables
         demo_console_props)) = Some ''0''"
proof -
  let ?v = "additionalEnvironmentVariables demo_console_props"
  have v: "?v = ([(''MODE'', ''custom''), (''LOG_LEVEL'', ''INFO'')],
      [(''DB_PASSWORD'', FromSecretsManager (ExternalSecret ''override'') None)])"
    by (simp add: demo_console_props_def ServiceProps.defs ConsoleServiceProps.defs)
  have d1: "distinct (map fst (fst ?v))" and d2: "distinct (map fst (snd ?v))"
    by (simp_all add: v)
  note w = console_override_wins [where q = demo_console_props and p = demo_api_props
      and v = "''custom''" and s = "FromSecretsManager (ExternalSecret ''override'') None",
      OF d1 d2]
  from w [where k = "''MODE''"] w [where k = "''DB_PASSWORD''"] w [where k = "''REDIS_DB''"]
  show ?thesis
    by (simp add: v)
qed

subsection \<open>C9: capacity-provider strategies\<close>

text \<open>
  Claim C9. The primary service gives weight 0 to \<open>FARGATE\<close> and weight 1 to
  \<open>FARGATE_SPOT\<close>, so the only provider with a positive weight is \<open>FARGATE_SPOT\<close>; the
  console service has the two weights exchanged, so its only provider with a positive
  weight is \<open>FARGATE\<close>.
\<close>

theorem capacity_strategies:
  "capacityProviderStrategies (service (ApiService p)) =
     [\<lparr>capacityProvider = ''FARGATE'', weight = 0\<rparr>,
      \<lparr>capacityProvider = ''FARGATE_SPOT'', weight = 1\<rparr>] \<and>
   map capacityProvider
     (filter (\<lambda>s. 0 < weight s) (capacityProviderStrategies (service (ApiService p)))) =
     [''FARGATE_SPOT''] \<and>
   capacityProviderStrategies (service (ConsoleService getEnv getSec q)) =
     [\<lparr>capacityProvider = ''FARGATE'', weight = 1\<rparr>,
      \<lparr>capacityProvider = ''FARGATE_SPOT'', weight = 0\<rparr>] \<and>
   map capacityProvider
     (filter (\<lambda>s. 0 < weight s) (capacityProviderStrategies (service (ConsoleService getEnv getSec q)))) =
     [''FARGATE'']"
  by (simp add: ApiService_def ConsoleService_def)

subsection \<open>C10: the shared dependencies volume\<close>

text \<open>
  Claim C10. \<open>SandboxFileMount\<close> mounts the volume \<open>sandbox\<close>, declared by the task
  definition, at \<open>/dependencies\<close> read-write; \<open>Sandbox\<close> mounts the same volume at the same
  path read-only; and \<open>SandboxFileMount\<close> is created with \<open>essential\<close> false.
\<close>

theorem dependencies_volume_mounts:
  "map_option mountPoints (findContainer ''SandboxFileMount'' (taskDefinition (ApiService p))) =
     Some [\<lparr>containerPath = ''/dependencies'', sourceVolume = ''sandbox'', readOnly = False\<rparr>] \<and>
   map_option mountPoints (findContainer ''Sandbox'' (taskDefinition (ApiService p))) =
     Some [\<lparr>containerPath = ''/dependencies'', sourceVolume = ''sandbox'', readOnly = True\<rparr>] \<and>
   volumes (taskDefinition (ApiService p)) = [''sandbox''] \<and>
   map_option (\<lambda>c. essential (props c))
     (findContainer ''SandboxFileMount'' (taskDefinition (ApiService p))) = Some (Some False)"
  by (simp add: ApiService_def findContainer_def api_containers api_volumes
      SandboxFileMount_options_def no_options_def)

end
